theory Spec2Isabelle
  imports Complex_Main "HOL-Library.Word"
begin

section \<open>Data model\<close>

text \<open>
  The planner keeps one global \<open>state\<close> object that every function reads and mutates.
  The model passes it explicitly.  Coordinates are real numbers; array indices are
  \<open>int\<close>, so that negative indices are inputs of the model; counts are \<open>nat\<close>.  The
  double-precision arithmetic of the route distance is not modelled: its result is a
  parameter (see \<open>calculateRouteDistance\<close>).
\<close>

text \<open>
  \<open>String.fromCharCode(n)\<close> yields the one UTF-16 code unit \<open>n mod 2^16\<close>; a stop label
  is such a one-unit string, \<open>65\<close> being the letter A.
\<close>

type_synonym code_unit = "16 word"

definition fromCharCode :: "nat \<Rightarrow> code_unit" where
  "fromCharCode n = word_of_nat n"

text \<open>
  A Leaflet marker of a stop: its position, the label and the CSS class of its
  \<open>divIcon\<close>, and the popup bound to it when it was created (name and label as they
  were then; no function rebinds the popup).
\<close>

record marker =
  marker_latlng :: "real \<times> real"
  icon_label :: code_unit
  icon_class :: string
  popup_name :: string
  popup_label :: code_unit

text \<open>An element of \<open>state.route.stops\<close>: \<open>{ lat, lon, name, marker }\<close>.\<close>

record stop =
  stop_lat :: real
  stop_lon :: real
  stop_name :: string
  stop_marker :: marker

text \<open>
  \<open>state.route.polyline\<close>: the polyline object built last and whether it is still a
  layer of the map (\<open>updateRoute\<close> removes the layer without clearing the field).
\<close>

record polyline =
  latlngs :: "(real \<times> real) list"
  on_map :: bool

text \<open>
  One \<open><li class="stop-item">\<close> that \<open>updateStopsList\<close> renders: the \<open>data-index\<close>, the
  class next to \<open>stop-marker\<close> (\<open>start\<close>, \<open>end\<close> or empty), the label, the name and the
  two numbers of "Stop i of n".
\<close>

record stop_item =
  data_index :: nat
  item_class :: string
  item_label :: code_unit
  item_name :: string
  item_position :: nat
  item_total :: nat

text \<open>
  The content of \<open>#stops-list\<close>: the fixed placeholder item shown for an empty route, or
  one item per stop.
\<close>

datatype stops_list_html = Placeholder | StopItems "stop_item list"

text \<open>
  A Leaflet marker of a point of interest: position, the options \<open>budget\<close> and
  \<open>category\<close> stored at creation (an option may be absent on a marker), and the opacity
  set by the filters.
\<close>

record poi_marker =
  poi_latlng :: "real \<times> real"
  poi_budget :: "int option"
  poi_category :: string
  poi_opacity :: real

text \<open>A search point of \<open>explorePlaces\<close>: a stop or an interpolated point.\<close>

datatype point_name = PlaceName string | EnRoute int

record search_point =
  sp_lat :: real
  sp_lon :: real
  sp_name :: point_name

text \<open>
  The blocks that \<open>generateItinerary\<close> appends to its \<open>html\<close> string, in order: the route
  header (stops, kilometres, days; \<open>None\<close> where the page shows \<open>NaN km\<close>), the "no
  places" notice, and one block per day holding its places.
\<close>

datatype place_entry =
    StartingPoint string
  | Place string "real \<times> real"
  | FinalDestination string

datatype html_block =
    RouteInfo nat "int option" nat
  | ItineraryEmpty
  | ItineraryDay nat "place_entry list"

text \<open>
  The parts of \<open>state\<close> and of the page that the functions below touch.
  \<open>state.markers.stops\<close> is not a field: it holds the same marker objects as
  \<open>state.route.stops[i].marker\<close> in the same order (every \<open>push\<close> and \<open>splice\<close> is done
  on both arrays) and is never read.
\<close>

record state =
  route_stops :: "stop list"
  route_polyline :: "polyline option"
  markers_pois :: "poi_marker list"
  trip_days :: nat
  trip_budget :: int
  currentDestination :: "search_point option"
  stops_list :: stops_list_html
  itinerary_panel_display :: string
  itinerary_content :: "html_block list"

text \<open>
  How a call completes, as its caller sees it: by returning \<open>undefined\<close> or by throwing.
\<close>

datatype completion = ReturnsUndefined | Throws string

section \<open>Route stops\<close>

text \<open>\<open>array[index]\<close>: \<open>undefined\<close> (here \<open>None\<close>) outside \<open>0 .. length - 1\<close>.\<close>

definition array_get :: "'a list \<Rightarrow> int \<Rightarrow> 'a option" where
  "array_get xs index =
     (if 0 \<le> index \<and> index < int (length xs) then Some (xs ! nat index) else None)"

text \<open>\<open>array.splice(index, 1)\<close> for an index in range.\<close>

definition splice1 :: "nat \<Rightarrow> 'a list \<Rightarrow> 'a list" where
  "splice1 i xs = take i xs @ drop (Suc i) xs"

text \<open>\<open>array.map((x, index) => f(x, index))\<close> and \<open>forEach\<close> with an index.\<close>

definition map_index :: "(nat \<Rightarrow> 'a \<Rightarrow> 'b) \<Rightarrow> 'a list \<Rightarrow> 'b list" where
  "map_index f xs = map (\<lambda>(i, x). f i x) (zip [0..<length xs] xs)"

text \<open>
  \<open>updateStopsList\<close> rewrites \<open>#stops-list\<close> from the current stops: label and class of
  every item come from its index alone.
\<close>

definition updateStopsList :: "state \<Rightarrow> state" where
  "updateStopsList s =
     (if length (route_stops s) = 0 then s\<lparr>stops_list := Placeholder\<rparr>
      else s\<lparr>stops_list := StopItems (map_index
             (\<lambda>index stop.
                \<lparr>data_index = index,
                 item_class =
                   (if index = 0 then ''start''
                    else if index = length (route_stops s) - 1 \<and> length (route_stops s) > 1
                      then ''end'' else ''''),
                 item_label = fromCharCode (65 + index),
                 item_name = stop_name stop,
                 item_position = index + 1,
                 item_total = length (route_stops s)\<rparr>)
             (route_stops s))\<rparr>)"

text \<open>
  \<open>updateRoute\<close> takes the old polyline off the map and, with at least two stops, draws
  a new one through the stops.  (The map view it then fits is not modelled.)
\<close>

definition updateRoute :: "state \<Rightarrow> state" where
  "updateRoute s =
     (let s1 = (case route_polyline s of
                  None \<Rightarrow> s
                | Some p \<Rightarrow> s\<lparr>route_polyline := Some (p\<lparr>on_map := False\<rparr>)\<rparr>)
      in if length (route_stops s1) < 2 then s1
         else s1\<lparr>route_polyline :=
                   Some \<lparr>latlngs = map (\<lambda>stop. (stop_lat stop, stop_lon stop)) (route_stops s1),
                         on_map = True\<rparr>\<rparr>)"

text \<open>
  \<open>addStop(lat, lon, name, type = 'stop')\<close>: the new marker takes the label of the next
  index and the class given by the caller.
\<close>

definition addStop :: "real \<Rightarrow> real \<Rightarrow> string \<Rightarrow> string \<Rightarrow> state \<Rightarrow> state" where
  "addStop lat lon name type s =
     (let stopIndex = length (route_stops s);
          markerLabel = fromCharCode (65 + stopIndex);
          marker = \<lparr>marker_latlng = (lat, lon), icon_label = markerLabel, icon_class = type,
                    popup_name = name, popup_label = markerLabel\<rparr>;
          s1 = s\<lparr>route_stops := route_stops s @
                  [\<lparr>stop_lat = lat, stop_lon = lon, stop_name = name, stop_marker = marker\<rparr>]\<rparr>
      in updateRoute (updateStopsList s1))"

text \<open>
  \<open>updateStop(index, lat, lon, name)\<close>: \<open>if (!stop) return;\<close> for a missing element,
  otherwise the stop and its marker are moved and renamed in place.
\<close>

definition updateStop :: "int \<Rightarrow> real \<Rightarrow> real \<Rightarrow> string \<Rightarrow> state \<Rightarrow> completion \<times> state" where
  "updateStop index lat lon name s =
     (case array_get (route_stops s) index of
        None \<Rightarrow> (ReturnsUndefined, s)
      | Some stop \<Rightarrow>
          (let stop' = stop\<lparr>stop_lat := lat, stop_lon := lon, stop_name := name,
                 stop_marker := (stop_marker stop)\<lparr>marker_latlng := (lat, lon)\<rparr>\<rparr>;
               s1 = s\<lparr>route_stops := (route_stops s)[nat index := stop']\<rparr>
           in (ReturnsUndefined, updateRoute (updateStopsList s1))))"

text \<open>The relabelling loop of \<open>removeStop\<close>: a new icon for every remaining marker.\<close>

definition relabel :: "stop list \<Rightarrow> stop list" where
  "relabel stops =
     map_index
       (\<lambda>i stop. stop\<lparr>stop_marker := (stop_marker stop)
            \<lparr>icon_label := fromCharCode (65 + i),
             icon_class := (if i = 0 then ''start'' else ''stop'')\<rparr>\<rparr>)
       stops"

text \<open>
  \<open>removeStop(index)\<close>: returns at once for an index out of range; otherwise splices the
  stop out, relabels the remaining markers and redraws list and route.
\<close>

definition removeStop :: "int \<Rightarrow> state \<Rightarrow> completion \<times> state" where
  "removeStop index s =
     (if index < 0 \<or> index \<ge> int (length (route_stops s)) then (ReturnsUndefined, s)
      else
        (let s1 = s\<lparr>route_stops := relabel (splice1 (nat index) (route_stops s))\<rparr>
         in (ReturnsUndefined, updateRoute (updateStopsList s1))))"

text \<open>A stop sequence built by sequential appends, each with its own arguments.\<close>

fun appends :: "(real \<times> real \<times> string \<times> string) list \<Rightarrow> state \<Rightarrow> state" where
  "appends [] s = s"
| "appends ((lat, lon, name, type) # rest) s = appends rest (addStop lat lon name type s)"

text \<open>The data of a stop without its marker, and the items of a rendered list.\<close>

definition stop_data :: "stop \<Rightarrow> real \<times> real \<times> string" where
  "stop_data st = (stop_lat st, stop_lon st, stop_name st)"

fun list_items :: "stops_list_html \<Rightarrow> stop_item list" where
  "list_items Placeholder = []"
| "list_items (StopItems items) = items"

section \<open>Budget filter\<close>

text \<open>\<open>marker.options.budget || fallback\<close>: an absent option and the number 0 are falsy.\<close>

definition budget_or :: "int option \<Rightarrow> int \<Rightarrow> int" where
  "budget_or budget fallback =
     (case budget of None \<Rightarrow> fallback | Some b \<Rightarrow> if b = 0 then fallback else b)"

definition filterPOIsByBudget :: "state \<Rightarrow> state" where
  "filterPOIsByBudget s =
     s\<lparr>markers_pois := map
         (\<lambda>marker.
            let markerBudget = budget_or (poi_budget marker) 2;
                visible = (markerBudget \<le> trip_budget s)
            in if visible then marker\<lparr>poi_opacity := 1\<rparr> else marker\<lparr>poi_opacity := 2 / 10\<rparr>)
         (markers_pois s)\<rparr>"

text \<open>
  \<open>handleBudgetChange\<close> with the value read from the slider: stores it in
  \<open>state.trip.budget\<close> and filters.
\<close>

definition handleBudgetChange :: "int \<Rightarrow> state \<Rightarrow> state" where
  "handleBudgetChange v s = filterPOIsByBudget (s\<lparr>trip_budget := v\<rparr>)"

text \<open>A marker is shown at full opacity when the filter left it visible.\<close>

definition shown :: "poi_marker \<Rightarrow> bool" where
  "shown marker = (poi_opacity marker = 1)"

text \<open>What the filter must not touch: position, budget level and category.\<close>

definition poi_data :: "poi_marker \<Rightarrow> (real \<times> real) \<times> int option \<times> string" where
  "poi_data marker = (poi_latlng marker, poi_budget marker, poi_category marker)"

text \<open>
  The categories that have an entry in \<open>POI_TYPES\<close>, and the table \<open>BUDGET_LEVELS\<close>
  (the \<open>class\<close> of each entry): it has the keys 1 to 4 only.
\<close>

definition POI_TYPES :: "string list" where
  "POI_TYPES = [''food'', ''cafe'', ''shop'', ''luxury'', ''landmark'', ''hotel'']"

definition BUDGET_LEVELS :: "int \<Rightarrow> string option" where
  "BUDGET_LEVELS level =
     (if level = 1 then Some ''economy''
      else if level = 2 then Some ''moderate''
      else if level = 3 then Some ''premium''
      else if level = 4 then Some ''luxury''
      else None)"

text \<open>
  \<open>const budget = Math.ceil(Math.random() * 4)\<close>, with the value \<open>r\<close> that
  \<open>Math.random()\<close> returns (a number in \<open>[0, 1)\<close>) as a parameter.
\<close>

definition assignedBudget :: "real \<Rightarrow> int" where
  "assignedBudget r = \<lceil>r * 4\<rceil>"

text \<open>
  \<open>createPOIMarker(poi, category)\<close> for a place at \<open>(lat, lon)\<close>.  The icon reads
  \<open>poiType.color\<close> and the popup reads \<open>budgetInfo.class\<close> before the marker is pushed to
  \<open>state.markers.pois\<close>: for a category without entry in \<open>POI_TYPES\<close>, and for a budget
  without entry in \<open>BUDGET_LEVELS\<close> (the budget 0), the call throws a \<open>TypeError\<close> and
  the array is left as it was.  (With the budget 0 the marker is on the map by then; the
  layers of the map are not part of the model.)  A new Leaflet marker has opacity 1.
\<close>

definition createPOIMarker ::
  "real \<Rightarrow> real \<Rightarrow> string \<Rightarrow> real \<Rightarrow> state \<Rightarrow> completion \<times> state" where
  "createPOIMarker lat lon category r s =
     (if category \<notin> set POI_TYPES then (Throws ''TypeError'', s)
      else
        (let budget = assignedBudget r
         in case BUDGET_LEVELS budget of
              None \<Rightarrow> (Throws ''TypeError'', s)
            | Some budgetInfo \<Rightarrow>
                (ReturnsUndefined,
                 s\<lparr>markers_pois := markers_pois s @
                     [\<lparr>poi_latlng = (lat, lon), poi_budget = Some budget,
                       poi_category = category, poi_opacity = 1\<rparr>]\<rparr>)))"

text \<open>\<open>clearPOIMarkers\<close> empties the array.\<close>

definition clearPOIMarkers :: "state \<Rightarrow> state" where
  "clearPOIMarkers s = s\<lparr>markers_pois := []\<rparr>"

text \<open>
  Every marker of the array has a stored budget level from 1 to 4: what holds of every
  array the functions above build (shown below).
\<close>

definition stored_levels :: "state \<Rightarrow> bool" where
  "stored_levels s =
     list_all (\<lambda>marker. case poi_budget marker of None \<Rightarrow> False | Some b \<Rightarrow> 1 \<le> b \<and> b \<le> 4)
       (markers_pois s)"

text \<open>The stored budget level of a marker is at most \<open>maxLevel\<close>.\<close>

definition level_at_most :: "int \<Rightarrow> poi_marker \<Rightarrow> bool" where
  "level_at_most maxLevel marker =
     (case poi_budget marker of None \<Rightarrow> False | Some b \<Rightarrow> b \<le> maxLevel)"

section \<open>Route distance and search points\<close>

text \<open>\<open>Math.round(x)\<close>: the integer nearest to \<open>x\<close>, halves rounded up.\<close>

definition math_round :: "real \<Rightarrow> int" where
  "math_round x = \<lfloor>x + 1 / 2\<rfloor>"

definition stop_coord :: "stop \<Rightarrow> real \<times> real" where
  "stop_coord st = (stop_lat st, stop_lon st)"

text \<open>
  \<open>calculateRouteDistance\<close>: 0 with fewer than two stops; otherwise \<open>Math.round\<close> of the
  sum of \<open>haversineDistance\<close> over the consecutive pairs of stops.  \<open>haversineDistance\<close>,
  the running sum and the rounding are double-precision arithmetic on the engine's
  \<open>Math.sin\<close>, \<open>Math.cos\<close>, \<open>Math.sqrt\<close> and \<open>Math.atan2\<close>, and the result can be \<open>NaN\<close>
  (\<open>Math.sqrt(1 - a)\<close> when the rounded \<open>a\<close> exceeds 1).  That arithmetic is not modelled:
  \<open>roundedTotal\<close> stands for what the loop and \<open>Math.round\<close> yield for the coordinates of
  the stops, \<open>None\<close> for \<open>NaN\<close>.
\<close>

definition calculateRouteDistance ::
  "((real \<times> real) list \<Rightarrow> int option) \<Rightarrow> state \<Rightarrow> int option" where
  "calculateRouteDistance roundedTotal s =
     (if length (route_stops s) < 2 then Some 0
      else roundedTotal (map stop_coord (route_stops s)))"

definition stop_point :: "stop \<Rightarrow> search_point" where
  "stop_point st = \<lparr>sp_lat = stop_lat st, sp_lon = stop_lon st, sp_name = PlaceName (stop_name st)\<rparr>"

text \<open>
  \<open>getIntermediatePoints(from, to, numPoints)\<close>: the points at the fractions
  \<open>i / (numPoints + 1)\<close>, \<open>i = 1 .. numPoints\<close>, named after the rounded percentage.
\<close>

definition getIntermediatePoints :: "search_point \<Rightarrow> search_point \<Rightarrow> nat \<Rightarrow> search_point list" where
  "getIntermediatePoints from to numPoints =
     map (\<lambda>i. let fraction = real i / (real numPoints + 1)
              in \<lparr>sp_lat = sp_lat from + (sp_lat to - sp_lat from) * fraction,
                  sp_lon = sp_lon from + (sp_lon to - sp_lon from) * fraction,
                  sp_name = EnRoute (math_round (fraction * 100))\<rparr>)
         [1..<Suc numPoints]"

text \<open>
  The search points that \<open>explorePlaces\<close> computes: all stops, then the intermediate
  points of every consecutive pair; without stops, the current destination.  The source
  passes the literal 3 as the number of points per pair; it is a parameter here.
  (Without stops and without a destination \<open>explorePlaces\<close> returns before it computes
  them.)
\<close>

definition searchPointsWith :: "nat \<Rightarrow> state \<Rightarrow> search_point list" where
  "searchPointsWith numPoints s =
     (if length (route_stops s) > 0 then
        map stop_point (route_stops s) @
        concat (map (\<lambda>i. getIntermediatePoints (stop_point (route_stops s ! i))
                            (stop_point (route_stops s ! (i + 1))) numPoints)
                    [0..<length (route_stops s) - 1])
      else (case currentDestination s of Some d \<Rightarrow> [d] | None \<Rightarrow> []))"

definition searchPoints :: "state \<Rightarrow> search_point list" where
  "searchPoints s = searchPointsWith 3 s"

text \<open>
  The interpolation as the specification words it: a linear blend of latitude and
  longitude, each on its own, at a fraction of the way from \<open>a\<close> to \<open>b\<close>.
\<close>

definition interpolate :: "real \<times> real \<Rightarrow> real \<times> real \<Rightarrow> real \<Rightarrow> real \<times> real" where
  "interpolate a b fraction =
     (fst a + (fst b - fst a) * fraction, snd a + (snd b - snd a) * fraction)"

definition sp_coord :: "search_point \<Rightarrow> real \<times> real" where
  "sp_coord p = (sp_lat p, sp_lon p)"

section \<open>Itinerary\<close>

text \<open>\<open>name || fallback\<close> on strings: the empty string is falsy.\<close>

definition name_or :: "string \<Rightarrow> string \<Rightarrow> string" where
  "name_or name fallback = (if name = [] then fallback else name)"

text \<open>
  The places of the itinerary: one per marker of \<open>state.markers.pois\<close>, in the order of
  the array, with its category and position (the displayed name and icon are looked up
  from the category).
\<close>

definition itinerary_pois :: "state \<Rightarrow> (string \<times> (real \<times> real)) list" where
  "itinerary_pois s = map (\<lambda>marker. (poi_category marker, poi_latlng marker)) (markers_pois s)"

text \<open>
  \<open>Math.ceil(pois.length / tripDays)\<close>.  \<open>adjustDays\<close> keeps \<open>tripDays\<close> between 1 and
  30; for \<open>tripDays = 0\<close> the loop over the days does not run and the value is not used.
\<close>

definition poisPerDay :: "state \<Rightarrow> nat" where
  "poisPerDay s = nat \<lceil>real (length (itinerary_pois s)) / real (trip_days s)\<rceil>"

text \<open>One pass of the loop over the days: nothing for a day without places.\<close>

definition itinerary_day :: "state \<Rightarrow> nat \<Rightarrow> html_block list" where
  "itinerary_day s day =
     (let startIdx = (day - 1) * poisPerDay s;
          dayPois = take (poisPerDay s) (drop startIdx (itinerary_pois s))
      in if length dayPois = 0 then []
         else [ItineraryDay day
                ((if day = 1 \<and> length (route_stops s) > 0
                  then [StartingPoint (name_or (stop_name (route_stops s ! 0)) ''Start'')]
                  else []) @
                 map (\<lambda>(category, latlng). Place category latlng) dayPois @
                 (if day = trip_days s \<and> length (route_stops s) > 1
                  then [FinalDestination
                          (name_or (stop_name (route_stops s ! (length (route_stops s) - 1)))
                             ''Destination'')]
                  else []))])"

text \<open>What follows the route header: the notice, or the blocks of days 1 to \<open>tripDays\<close>.\<close>

definition itinerary_body :: "state \<Rightarrow> html_block list" where
  "itinerary_body s =
     (if length (itinerary_pois s) = 0 then [ItineraryEmpty]
      else concat (map (itinerary_day s) [1..<Suc (trip_days s)]))"

text \<open>
  \<open>generateItinerary\<close> (with the panel and its content element present in the page)
  shows the panel and replaces its content.
\<close>

definition generateItinerary ::
  "((real \<times> real) list \<Rightarrow> int option) \<Rightarrow> state \<Rightarrow> state" where
  "generateItinerary roundedTotal s =
     s\<lparr>itinerary_panel_display := ''block'',
       itinerary_content :=
         RouteInfo (length (route_stops s)) (calculateRouteDistance roundedTotal s)
           (trip_days s)
           # itinerary_body s\<rparr>"

text \<open>Reading a rendered itinerary: its day blocks, and the places of a day.\<close>

fun day_blocks :: "html_block list \<Rightarrow> (nat \<times> place_entry list) list" where
  "day_blocks [] = []"
| "day_blocks (ItineraryDay day entries # rest) = (day, entries) # day_blocks rest"
| "day_blocks (_ # rest) = day_blocks rest"

fun entry_pois :: "place_entry list \<Rightarrow> (string \<times> (real \<times> real)) list" where
  "entry_pois [] = []"
| "entry_pois (Place category latlng # rest) = (category, latlng) # entry_pois rest"
| "entry_pois (_ # rest) = entry_pois rest"

fun is_day :: "html_block \<Rightarrow> bool" where
  "is_day (ItineraryDay day entries) = True"
| "is_day _ = False"

text \<open>
  The partition as the specification words it ("partition the record list, in ingestion
  order, into contiguous chunks of \<open>poisPerDay\<close>, one chunk per day, skipping empty
  trailing days"): chunks of \<open>k\<close> elements in order, the last one possibly shorter, none
  of them empty.  The code's loop is compared with it below.
\<close>

function spec_chunks :: "nat \<Rightarrow> 'a list \<Rightarrow> 'a list list" where
  "spec_chunks k xs = (if k = 0 \<or> xs = [] then [] else take k xs # spec_chunks k (drop k xs))"
  by pat_completeness auto
termination
  by (relation "measure (\<lambda>(k, xs). length xs)") auto

text \<open>
  The intermediate points of every consecutive pair of stops, one list per pair, as the
  loop of \<open>explorePlaces\<close> pushes them.
\<close>

definition segments :: "nat \<Rightarrow> state \<Rightarrow> search_point list list" where
  "segments numPoints s =
     map (\<lambda>i. getIntermediatePoints (stop_point (route_stops s ! i))
                 (stop_point (route_stops s ! (i + 1))) numPoints)
         [0..<length (route_stops s) - 1]"

text \<open>
  The slice of the places that the loop takes for a day, and the pair of a day with its
  slice when the day is not skipped (days counted from \<open>off + 1\<close>).
\<close>

definition day_slice :: "nat \<Rightarrow> 'a list \<Rightarrow> nat \<Rightarrow> 'a list" where
  "day_slice k xs day = take k (drop ((day - 1) * k) xs)"

definition day_pairs :: "nat \<Rightarrow> 'a list \<Rightarrow> nat \<Rightarrow> nat \<Rightarrow> (nat \<times> 'a list) list" where
  "day_pairs k xs off day =
     (if day_slice k xs (day - off) = [] then [] else [(day, day_slice k xs (day - off))])"

declare spec_chunks.simps [simp del]

section \<open>Concrete states\<close>

text \<open>
  The \<open>state\<close> object as the script creates it (three days, budget 25000).  What
  \<open>#stops-list\<close> and the itinerary panel hold before the script first writes them comes
  from the page's markup; the placeholder item and an empty, hidden panel are taken here.
  The first \<open>addStop\<close> and the first \<open>generateItinerary\<close> overwrite them.
\<close>

definition initial_state :: state where
  "initial_state =
     \<lparr>route_stops = [], route_polyline = None, markers_pois = [], trip_days = 3,
      trip_budget = 25000, currentDestination = None, stops_list = Placeholder,
      itinerary_panel_display = ''none'', itinerary_content = []\<rparr>"

definition three_stops :: "(real \<times> real \<times> string \<times> string) list" where
  "three_stops =
     [(1, 2, ''Delhi'', ''start''), (3, 4, ''Agra'', ''end''), (5, 6, ''Jaipur'', ''stop'')]"

definition two_stops :: state where
  "two_stops = appends [(1, 2, ''Delhi'', ''start''), (3, 4, ''Agra'', ''end'')] initial_state"

text \<open>
  A catalog with one marker of each budget level 1 to 4, as four calls of
  \<open>createPOIMarker\<close> build it (shown below).
\<close>

definition four_levels :: state where
  "four_levels = initial_state\<lparr>markers_pois :=
     [\<lparr>poi_latlng = (1, 1), poi_budget = Some 1, poi_category = ''food'', poi_opacity = 1\<rparr>,
      \<lparr>poi_latlng = (2, 2), poi_budget = Some 2, poi_category = ''cafe'', poi_opacity = 1\<rparr>,
      \<lparr>poi_latlng = (3, 3), poi_budget = Some 3, poi_category = ''shop'', poi_opacity = 1\<rparr>,
      \<lparr>poi_latlng = (4, 4), poi_budget = Some 4, poi_category = ''hotel'', poi_opacity = 1\<rparr>]\<rparr>"

text \<open>
  A marker list as no call of \<open>createPOIMarker\<close> leaves it: one marker without the option
  \<open>budget\<close> and one with the budget 0.  It serves to run the default of the filter.
\<close>

definition without_levels :: state where
  "without_levels = initial_state\<lparr>markers_pois :=
     [\<lparr>poi_latlng = (1, 1), poi_budget = None, poi_category = ''food'', poi_opacity = 1\<rparr>,
      \<lparr>poi_latlng = (2, 2), poi_budget = Some 0, poi_category = ''cafe'', poi_opacity = 1\<rparr>]\<rparr>"

text \<open>Two stops, the four places above, three days (the default).\<close>

definition four_places :: state where
  "four_places = two_stops\<lparr>markers_pois := markers_pois four_levels\<rparr>"

text \<open>Two stops, seven places, three days.\<close>

definition seven_places :: state where
  "seven_places = two_stops\<lparr>markers_pois :=
     map (\<lambda>x. \<lparr>poi_latlng = (x, x), poi_budget = Some 1, poi_category = ''food'',
               poi_opacity = 1\<rparr>) [0, 1, 2, 3, 4, 5, 6]\<rparr>"

text \<open>Two stops, no places, one day.\<close>

definition no_places :: state where
  "no_places = two_stops\<lparr>trip_days := 1\<rparr>"

section \<open>Properties of the route stops\<close>

lemma length_map_index [simp]: "length (map_index f xs) = length xs"
  by (simp add: map_index_def)

lemma nth_map_index [simp]: "i < length xs \<Longrightarrow> map_index f xs ! i = f i (xs ! i)"
  by (simp add: map_index_def)

lemma map_map_index: "map g (map_index f xs) = map_index (\<lambda>i x. g (f i x)) xs"
  by (simp add: map_index_def split_def)

lemma map_index_const_nat: "map_index (\<lambda>i x. g i) xs = map g [0..<length xs]"
  by (rule nth_equalityI) (simp_all)

lemma map_index_no_index: "map_index (\<lambda>i x. g x) xs = map g xs"
  by (rule nth_equalityI) (simp_all)

lemma route_stops_updateStopsList [simp]: "route_stops (updateStopsList s) = route_stops s"
  by (simp add: updateStopsList_def)

lemma route_stops_updateRoute [simp]: "route_stops (updateRoute s) = route_stops s"
  by (simp add: updateRoute_def Let_def split: option.splits)

lemma stops_list_updateRoute [simp]: "stops_list (updateRoute s) = stops_list s"
  by (simp add: updateRoute_def Let_def split: option.splits)

lemma stop_data_addStop:
  "map stop_data (route_stops (addStop lat lon name type s)) =
     map stop_data (route_stops s) @ [(lat, lon, name)]"
  by (simp add: addStop_def Let_def stop_data_def)

lemma stop_data_appends:
  "map stop_data (route_stops (appends args s)) =
     map stop_data (route_stops s) @ map (\<lambda>(lat, lon, name, type). (lat, lon, name)) args"
  by (induction args s rule: appends.induct) (simp_all add: stop_data_addStop)

lemma length_appends: "length (route_stops (appends args s)) = length (route_stops s) + length args"
  using arg_cong [OF stop_data_appends, of length args s] by simp

lemma stop_data_relabel: "map stop_data (relabel stops) = map stop_data stops"
  by (simp add: relabel_def map_map_index stop_data_def map_index_no_index)

lemma icon_label_relabel:
  "map (\<lambda>st. icon_label (stop_marker st)) (relabel stops) =
     map (\<lambda>j. fromCharCode (65 + j)) [0..<length stops]"
  by (simp add: relabel_def map_map_index map_index_const_nat)

lemma length_relabel [simp]: "length (relabel stops) = length stops"
  by (simp add: relabel_def)

lemma length_splice1: "i < length xs \<Longrightarrow> length (splice1 i xs) = length xs - 1"
  by (simp add: splice1_def)

lemma map_splice1: "map f (splice1 i xs) = splice1 i (map f xs)"
  by (simp add: splice1_def take_map drop_map)

lemma removeStop_in_range:
  "0 \<le> index \<Longrightarrow> index < int (length (route_stops s)) \<Longrightarrow>
   route_stops (snd (removeStop index s)) = relabel (splice1 (nat index) (route_stops s))"
  by (simp add: removeStop_def Let_def)

lemma stops_list_removeStop:
  "0 \<le> index \<Longrightarrow> index < int (length (route_stops s)) \<Longrightarrow>
   stops_list (snd (removeStop index s)) =
     stops_list (updateStopsList (s\<lparr>route_stops := relabel (splice1 (nat index) (route_stops s))\<rparr>))"
  by (simp add: removeStop_def Let_def)

lemma list_items_labels:
  "map item_label (list_items (stops_list (updateStopsList s))) =
     map (\<lambda>j. fromCharCode (65 + j)) [0..<length (route_stops s)]"
  by (simp add: updateStopsList_def map_map_index map_index_const_nat)

lemma list_items_classes:
  "map item_class (list_items (stops_list (updateStopsList s))) =
     map (\<lambda>j. if j = 0 then ''start''
               else if j = length (route_stops s) - 1 \<and> length (route_stops s) > 1 then ''end''
               else '''') [0..<length (route_stops s)]"
  by (simp add: updateStopsList_def map_map_index map_index_const_nat)

lemma two_stops_length: "length (route_stops two_stops) = 2"
  unfolding two_stops_def by (simp only: length_appends) (simp add: initial_state_def)

text \<open>
  What a removal keeps in step with the order.  A stop sequence is built from an empty
  route by \<open>N\<close> calls of \<open>addStop\<close>, then \<open>removeStop(i)\<close> is called with \<open>0 \<le> i < N\<close>.
  The remaining stops are the appended ones without the \<open>i\<close>-th, in order.  The labels on
  the marker icons and in the rendered list are the letters of the positions
  \<open>0 .. N - 2\<close> (\<open>fromCharCode (65 + j)\<close> at position \<open>j\<close>).  In the rendered list the first
  item has the class \<open>start\<close> and, when more than one stop remains, the last item has the
  class \<open>end\<close>.
\<close>

lemma remove_after_appends_list_and_icon_labels:
  assumes "route_stops s0 = []" and "0 \<le> i" and "i < int (length args)"
  shows "let s' = snd (removeStop i (appends args s0)); n = length args - 1 in
      map stop_data (route_stops s') =
        splice1 (nat i) (map (\<lambda>(lat, lon, name, type). (lat, lon, name)) args)
    \<and> map (\<lambda>st. icon_label (stop_marker st)) (route_stops s') =
        map (\<lambda>j. fromCharCode (65 + j)) [0..<n]
    \<and> map item_label (list_items (stops_list s')) = map (\<lambda>j. fromCharCode (65 + j)) [0..<n]
    \<and> (0 < n \<longrightarrow> item_class (list_items (stops_list s') ! 0) = ''start'')
    \<and> (1 < n \<longrightarrow> item_class (list_items (stops_list s') ! (n - 1)) = ''end'')"
proof -
  let ?s = "appends args s0"
  let ?s' = "snd (removeStop i ?s)"
  let ?n = "length args - 1"
  let ?mid = "?s\<lparr>route_stops := relabel (splice1 (nat i) (route_stops ?s))\<rparr>"
  have len: "length (route_stops ?s) = length args"
    using assms(1) by (simp add: length_appends)
  have inr: "i < int (length (route_stops ?s))"
    using assms(3) len by simp
  have stops: "route_stops ?s' = relabel (splice1 (nat i) (route_stops ?s))"
    using assms(2) inr by (rule removeStop_in_range)
  have len': "length (route_stops ?s') = ?n"
    using stops len assms(2,3) by (simp add: length_splice1)
  have lenmid: "length (route_stops ?mid) = ?n"
    using stops len' by simp
  have data: "map stop_data (route_stops ?s') =
      splice1 (nat i) (map (\<lambda>(lat, lon, name, type). (lat, lon, name)) args)"
    using assms(1) by (simp add: stops stop_data_relabel map_splice1 stop_data_appends)
  have icons: "map (\<lambda>st. icon_label (stop_marker st)) (route_stops ?s') =
      map (\<lambda>j. fromCharCode (65 + j)) [0..<?n]"
    using len' by (simp only: stops icon_label_relabel length_relabel)
  have rendered: "stops_list ?s' = stops_list (updateStopsList ?mid)"
    using assms(2) inr by (rule stops_list_removeStop)
  have labels: "map item_label (list_items (stops_list ?s')) =
      map (\<lambda>j. fromCharCode (65 + j)) [0..<?n]"
    by (simp only: rendered list_items_labels lenmid)
  have classes: "map item_class (list_items (stops_list ?s')) =
      map (\<lambda>j. if j = 0 then ''start'' else if j = ?n - 1 \<and> ?n > 1 then ''end'' else [])
        [0..<?n]"
    by (simp only: rendered list_items_classes lenmid)
  have litems: "length (list_items (stops_list ?s')) = ?n"
    using arg_cong [OF classes, of length] by simp
  have first: "0 < ?n \<longrightarrow> item_class (list_items (stops_list ?s') ! 0) = ''start''"
  proof
    assume pos: "0 < ?n"
    have "item_class (list_items (stops_list ?s') ! 0) =
        map item_class (list_items (stops_list ?s')) ! 0"
      using pos litems by simp
    also have "\<dots> = ''start''"
      using pos by (simp only: classes) simp
    finally show "item_class (list_items (stops_list ?s') ! 0) = ''start''" .
  qed
  have lst: "1 < ?n \<longrightarrow> item_class (list_items (stops_list ?s') ! (?n - 1)) = ''end''"
  proof
    assume big: "1 < ?n"
    have "item_class (list_items (stops_list ?s') ! (?n - 1)) =
        map item_class (list_items (stops_list ?s')) ! (?n - 1)"
      using big litems by simp
    also have "\<dots> = ''end''"
      using big by (simp only: classes) simp
    finally show "item_class (list_items (stops_list ?s') ! (?n - 1)) = ''end''" .
  qed
  show ?thesis
    unfolding Let_def using data icons labels first lst by blast
qed

text \<open>
  Claim C1, at inputs where the code departs from it.  Three stops are appended with the
  classes \<open>start\<close>, \<open>end\<close> and \<open>stop\<close>.  After \<open>removeStop(1)\<close> and after \<open>removeStop(2)\<close> the
  rendered list gives the two remaining stops the classes \<open>start\<close> and \<open>end\<close>, but the
  relabelling loop of \<open>removeStop\<close> has given the icon of the last marker the class
  \<open>stop\<close>: the loop knows \<open>start\<close> and \<open>stop\<close> only, while \<open>addStop\<close> takes \<open>end\<close> and
  \<open>updateStopsList\<close> derives it.  After \<open>removeStop(0)\<close> the icons are lettered A and B,
  while the popups bound in \<open>addStop\<close> still read B and C.
\<close>

theorem removeStop_leaves_stale_marker_roles:
  "map (\<lambda>st. icon_class (stop_marker st)) (route_stops (appends three_stops initial_state)) =
     [''start'', ''end'', ''stop''] \<and>
   map (\<lambda>st. icon_class (stop_marker st))
     (route_stops (snd (removeStop 1 (appends three_stops initial_state)))) =
     [''start'', ''stop''] \<and>
   map item_class (list_items (stops_list (snd (removeStop 1 (appends three_stops initial_state)))))
     = [''start'', ''end''] \<and>
   map (\<lambda>st. (stop_name st, icon_class (stop_marker st)))
     (route_stops (snd (removeStop 2 (appends three_stops initial_state)))) =
     [(''Delhi'', ''start''), (''Agra'', ''stop'')] \<and>
   map item_class (list_items (stops_list (snd (removeStop 2 (appends three_stops initial_state)))))
     = [''start'', ''end''] \<and>
   map (\<lambda>st. icon_label (stop_marker st))
     (route_stops (snd (removeStop 0 (appends three_stops initial_state)))) = [65, 66] \<and>
   map (\<lambda>st. popup_label (stop_marker st))
     (route_stops (snd (removeStop 0 (appends three_stops initial_state)))) = [66, 67]"
  by (simp add: three_stops_def initial_state_def addStop_def removeStop_def relabel_def
      updateStopsList_def updateRoute_def map_index_def splice1_def fromCharCode_def Let_def
      upt_rec)

text \<open>
  Claim C9.  With an index outside \<open>0 .. length - 1\<close>, \<open>updateStop\<close> and \<open>removeStop\<close>
  leave the whole state as it was: the stops with their coordinates, names and markers,
  the polyline and the rendered list with its labels and classes.
\<close>

theorem out_of_range_leaves_state_unchanged:
  "index < 0 \<or> int (length (route_stops s)) \<le> index \<Longrightarrow>
   snd (updateStop index lat lon name s) = s \<and> snd (removeStop index s) = s"
  by (auto simp add: updateStop_def removeStop_def array_get_def)

theorem out_of_range_leaves_state_unchanged_witness:
  "((5::int) < 0 \<or> int (length (route_stops two_stops)) \<le> 5) \<and>
   snd (updateStop 5 7 8 ''Jaipur'' two_stops) = two_stops \<and>
   snd (removeStop 5 two_stops) = two_stops"
  using out_of_range_leaves_state_unchanged [of 5 two_stops 7 8 "''Jaipur''"]
  by (simp add: two_stops_length)

text \<open>
  Claim C3, as the code has it.  The claim says that an out-of-range index is reported
  to the caller.  In the code both functions return \<open>undefined\<close> on every path, so an
  out-of-range call completes exactly as a successful one.  What holds: every call of
  \<open>updateStop\<close> and \<open>removeStop\<close> returns \<open>undefined\<close>, and an out-of-range index is not
  clamped to a valid one: no stop is replaced or removed.
\<close>

theorem out_of_range_reports_nothing:
  "fst (updateStop index lat lon name s) = ReturnsUndefined \<and>
   fst (removeStop index s) = ReturnsUndefined \<and>
   (index < 0 \<or> int (length (route_stops s)) \<le> index \<longrightarrow>
      route_stops (snd (updateStop index lat lon name s)) = route_stops s \<and>
      route_stops (snd (removeStop index s)) = route_stops s)"
  by (auto simp add: updateStop_def removeStop_def array_get_def Let_def split: option.splits)

theorem out_of_range_reports_nothing_witness:
  "fst (updateStop (- 1) 7 8 ''Jaipur'' two_stops) = ReturnsUndefined \<and>
   fst (removeStop (- 1) two_stops) = ReturnsUndefined \<and>
   ((- 1 :: int) < 0 \<or> int (length (route_stops two_stops)) \<le> - 1) \<and>
   route_stops (snd (updateStop (- 1) 7 8 ''Jaipur'' two_stops)) = route_stops two_stops \<and>
   route_stops (snd (removeStop (- 1) two_stops)) = route_stops two_stops"
  using out_of_range_reports_nothing [of "- 1" 7 8 "''Jaipur''" two_stops]
  by simp

text \<open>
  The claim fails on a route of two stops: \<open>removeStop(5)\<close> and \<open>updateStop(5, \<dots>)\<close>
  return \<open>undefined\<close> and change nothing, and the in-range calls with index 1 return
  \<open>undefined\<close> too, so the caller cannot tell the two apart.
\<close>

theorem out_of_range_is_silent_counterexample:
  "length (route_stops two_stops) = 2 \<and>
   removeStop 5 two_stops = (ReturnsUndefined, two_stops) \<and>
   updateStop 5 7 8 ''Jaipur'' two_stops = (ReturnsUndefined, two_stops) \<and>
   fst (removeStop 1 two_stops) = ReturnsUndefined \<and>
   fst (updateStop 1 7 8 ''Jaipur'' two_stops) = ReturnsUndefined"
  by (simp add: two_stops_length updateStop_def removeStop_def array_get_def Let_def)

section \<open>Properties of the budget filter\<close>

lemma shown_filter:
  "shown (let markerBudget = budget_or (poi_budget marker) 2; visible = (markerBudget \<le> v)
          in if visible then marker\<lparr>poi_opacity := 1\<rparr> else marker\<lparr>poi_opacity := 2 / 10\<rparr>)
   = (budget_or (poi_budget marker) 2 \<le> v)"
  by (simp add: shown_def Let_def)

lemma poi_data_filter:
  "poi_data (let markerBudget = budget_or (poi_budget marker) 2; visible = (markerBudget \<le> v)
          in if visible then marker\<lparr>poi_opacity := 1\<rparr> else marker\<lparr>poi_opacity := 2 / 10\<rparr>)
   = poi_data marker"
  by (simp add: poi_data_def Let_def)

lemma markers_handleBudgetChange:
  "markers_pois (handleBudgetChange v s) =
     map (\<lambda>marker. let markerBudget = budget_or (poi_budget marker) 2;
                        visible = (markerBudget \<le> v)
                    in if visible then marker\<lparr>poi_opacity := 1\<rparr>
                       else marker\<lparr>poi_opacity := 2 / 10\<rparr>) (markers_pois s)"
  by (simp add: handleBudgetChange_def filterPOIsByBudget_def)

lemma shown_handleBudgetChange:
  "map shown (markers_pois (handleBudgetChange v s)) =
     map (\<lambda>m. budget_or (poi_budget m) 2 \<le> v) (markers_pois s)"
  by (simp only: markers_handleBudgetChange map_map o_def shown_filter)

lemma poi_data_handleBudgetChange:
  "map poi_data (markers_pois (handleBudgetChange v s)) = map poi_data (markers_pois s)"
  by (simp only: markers_handleBudgetChange map_map o_def poi_data_filter)

lemma shown_nth_handleBudgetChange:
  "i < length (markers_pois s) \<Longrightarrow>
   shown (markers_pois (handleBudgetChange v s) ! i) =
     (budget_or (poi_budget (markers_pois s ! i)) 2 \<le> v)"
  by (simp only: markers_handleBudgetChange nth_map shown_filter)

lemma filter_shown_handleBudgetChange:
  "map poi_data (filter shown (markers_pois (handleBudgetChange v s))) =
     map poi_data (filter (\<lambda>m. budget_or (poi_budget m) 2 \<le> v) (markers_pois s))"
  by (simp only: markers_handleBudgetChange filter_map map_map o_def shown_filter poi_data_filter)

lemma BUDGET_LEVELS_keys: "(BUDGET_LEVELS b \<noteq> None) = (1 \<le> b \<and> b \<le> 4)"
  by (auto simp add: BUDGET_LEVELS_def)

lemma assignedBudget_range: "0 \<le> r \<Longrightarrow> r < 1 \<Longrightarrow> 0 \<le> assignedBudget r \<and> assignedBudget r \<le> 4"
proof
  assume "0 \<le> r" then show "0 \<le> assignedBudget r"
    by (simp add: assignedBudget_def ceiling_le_iff le_ceiling_iff)
next
  assume "r < 1" then show "assignedBudget r \<le> 4"
    by (simp add: assignedBudget_def ceiling_le_iff)
qed

lemma createPOIMarker_throws:
  "assignedBudget r = 0 \<Longrightarrow> createPOIMarker lat lon category r s = (Throws ''TypeError'', s)"
  by (simp add: createPOIMarker_def BUDGET_LEVELS_def)

lemma createPOIMarker_stores:
  assumes "category \<in> set POI_TYPES" and "1 \<le> assignedBudget r" and "assignedBudget r \<le> 4"
  shows "createPOIMarker lat lon category r s =
    (ReturnsUndefined,
     s\<lparr>markers_pois := markers_pois s @
         [\<lparr>poi_latlng = (lat, lon), poi_budget = Some (assignedBudget r),
           poi_category = category, poi_opacity = 1\<rparr>]\<rparr>)"
proof -
  obtain info where "BUDGET_LEVELS (assignedBudget r) = Some info"
    using assms(2,3) BUDGET_LEVELS_keys [of "assignedBudget r"] by auto
  then show ?thesis
    using assms(1) by (simp add: createPOIMarker_def)
qed

text \<open>
  Every array that \<open>createPOIMarker\<close>, \<open>clearPOIMarkers\<close> and the filter build from the
  initial one holds stored levels from 1 to 4 only, whatever \<open>Math.random()\<close> returns.
\<close>

lemma stored_levels_initial: "stored_levels initial_state"
  by (simp add: stored_levels_def initial_state_def)

lemma stored_levels_clearPOIMarkers: "stored_levels (clearPOIMarkers s)"
  by (simp add: stored_levels_def clearPOIMarkers_def)

lemma stored_levels_createPOIMarker:
  "stored_levels s \<Longrightarrow> stored_levels (snd (createPOIMarker lat lon category r s))"
  using BUDGET_LEVELS_keys [of "assignedBudget r"]
  by (auto simp add: createPOIMarker_def stored_levels_def Let_def split: option.splits)

lemma stored_levels_handleBudgetChange:
  "stored_levels s \<Longrightarrow> stored_levels (handleBudgetChange v s)"
  by (auto simp add: stored_levels_def markers_handleBudgetChange list_all_iff Let_def)

lemma stored_level_at_most:
  assumes "stored_levels s" and "marker \<in> set (markers_pois s)"
  shows "(budget_or (poi_budget marker) 2 \<le> maxLevel) = level_at_most maxLevel marker"
proof -
  obtain b where "poi_budget marker = Some b" and "1 \<le> b"
    using assms by (auto simp add: stored_levels_def list_all_iff split: option.splits)
  then show ?thesis
    by (simp add: budget_or_def level_at_most_def)
qed

lemma four_levels_built:
  "snd (createPOIMarker 4 4 ''hotel'' (9 / 10)
     (snd (createPOIMarker 3 3 ''shop'' (3 / 4)
       (snd (createPOIMarker 2 2 ''cafe'' (1 / 2)
         (snd (createPOIMarker 1 1 ''food'' (1 / 4) initial_state))))))) = four_levels"
  by (simp add: createPOIMarker_def assignedBudget_def BUDGET_LEVELS_def POI_TYPES_def
      four_levels_def initial_state_def)

text \<open>
  Claim C6.  \<open>filterByBudget(maxLevel)\<close> is \<open>handleBudgetChange\<close> with the value
  \<open>maxLevel\<close>.  On every catalog whose records have a stored level from 1 to 4, which is
  every catalog the code builds, it keeps the list of markers: same length, and every
  marker keeps its position, budget level and category; only the opacity is set.  The
  markers shown at full opacity are exactly those whose stored level is at most
  \<open>maxLevel\<close>, in the order of the list.
\<close>

theorem filterByBudget_marks_levels_up_to_max:
  assumes "stored_levels s"
  shows "length (markers_pois (handleBudgetChange maxLevel s)) = length (markers_pois s) \<and>
         map poi_data (markers_pois (handleBudgetChange maxLevel s)) =
           map poi_data (markers_pois s) \<and>
         map shown (markers_pois (handleBudgetChange maxLevel s)) =
           map (level_at_most maxLevel) (markers_pois s) \<and>
         map poi_data (filter shown (markers_pois (handleBudgetChange maxLevel s))) =
           map poi_data (filter (level_at_most maxLevel) (markers_pois s))"
proof -
  have a: "length (markers_pois (handleBudgetChange maxLevel s)) = length (markers_pois s)"
    by (simp add: markers_handleBudgetChange)
  have b: "map (\<lambda>m. budget_or (poi_budget m) 2 \<le> maxLevel) (markers_pois s) =
      map (level_at_most maxLevel) (markers_pois s)"
    by (rule map_cong [OF refl]) (rule stored_level_at_most [OF assms])
  have c: "filter (\<lambda>m. budget_or (poi_budget m) 2 \<le> maxLevel) (markers_pois s) =
      filter (level_at_most maxLevel) (markers_pois s)"
    by (rule filter_cong [OF refl]) (rule stored_level_at_most [OF assms])
  have d: "map shown (markers_pois (handleBudgetChange maxLevel s)) =
      map (level_at_most maxLevel) (markers_pois s)"
    by (simp only: shown_handleBudgetChange b)
  have e: "map poi_data (filter shown (markers_pois (handleBudgetChange maxLevel s))) =
      map poi_data (filter (level_at_most maxLevel) (markers_pois s))"
    by (simp only: filter_shown_handleBudgetChange c)
  show ?thesis
    using a d e poi_data_handleBudgetChange by blast
qed

theorem filterByBudget_marks_levels_up_to_max_witness:
  "stored_levels four_levels \<and>
   map poi_budget (markers_pois four_levels) = [Some 1, Some 2, Some 3, Some 4] \<and>
   length (markers_pois (handleBudgetChange 2 four_levels)) = 4 \<and>
   map poi_data (markers_pois (handleBudgetChange 2 four_levels)) =
     map poi_data (markers_pois four_levels) \<and>
   map shown (markers_pois (handleBudgetChange 2 four_levels)) = [True, True, False, False] \<and>
   map poi_data (filter shown (markers_pois (handleBudgetChange 2 four_levels))) =
     [((1, 1), Some 1, ''food''), ((2, 2), Some 2, ''cafe'')]"
proof -
  have h: "stored_levels four_levels"
    unfolding four_levels_built [symmetric]
    by (intro stored_levels_createPOIMarker stored_levels_initial)
  show ?thesis
    using h filterByBudget_marks_levels_up_to_max [OF h, of 2]
    by (simp add: four_levels_def initial_state_def level_at_most_def poi_data_def)
qed

text \<open>
  Claim C10.  The filter reads \<open>marker.options.budget || 2\<close>: a marker whose stored budget
  is absent or 0 is filtered as level 2, so it is shown if and only if \<open>maxLevel \<ge> 2\<close>.
  The random assignment \<open>Math.ceil(r * 4)\<close> is the least integer not below \<open>4 r\<close>: it is
  0 for \<open>r = 0\<close> and lies in \<open>0 .. 4\<close> for every \<open>r\<close> in \<open>[0, 1)\<close>.  With the assigned
  budget 0, \<open>createPOIMarker\<close> throws and stores nothing; with an assigned budget from 1
  to 4 and a category of \<open>POI_TYPES\<close> it stores exactly that budget.  So the first part
  is about the filter as a function of the marker list: no marker stored by
  \<open>createPOIMarker\<close> takes the default.
\<close>

theorem absent_or_zero_budget_counts_as_two:
  "(i < length (markers_pois s) \<and>
      (poi_budget (markers_pois s ! i) = None \<or> poi_budget (markers_pois s ! i) = Some 0) \<longrightarrow>
      shown (markers_pois (handleBudgetChange maxLevel s) ! i) = (2 \<le> maxLevel)) \<and>
   assignedBudget 0 = 0 \<and>
   (assignedBudget r = b) = (of_int b - 1 < r * 4 \<and> r * 4 \<le> of_int b) \<and>
   (0 \<le> r \<and> r < 1 \<longrightarrow> 0 \<le> assignedBudget r \<and> assignedBudget r \<le> 4) \<and>
   (assignedBudget r = 0 \<longrightarrow>
      createPOIMarker lat lon category r s = (Throws ''TypeError'', s)) \<and>
   (category \<in> set POI_TYPES \<and> 1 \<le> assignedBudget r \<and> assignedBudget r \<le> 4 \<longrightarrow>
      createPOIMarker lat lon category r s =
        (ReturnsUndefined,
         s\<lparr>markers_pois := markers_pois s @
             [\<lparr>poi_latlng = (lat, lon), poi_budget = Some (assignedBudget r),
               poi_category = category, poi_opacity = 1\<rparr>]\<rparr>))"
proof -
  have a: "i < length (markers_pois s) \<and>
      (poi_budget (markers_pois s ! i) = None \<or> poi_budget (markers_pois s ! i) = Some 0) \<longrightarrow>
      shown (markers_pois (handleBudgetChange maxLevel s) ! i) = (2 \<le> maxLevel)"
    by (auto simp add: shown_nth_handleBudgetChange budget_or_def)
  have b0: "assignedBudget 0 = 0"
    by (simp add: assignedBudget_def)
  have c: "(assignedBudget r = b) = (of_int b - 1 < r * 4 \<and> r * 4 \<le> of_int b)"
    unfolding assignedBudget_def by (rule ceiling_eq_iff)
  have d: "0 \<le> r \<and> r < 1 \<longrightarrow> 0 \<le> assignedBudget r \<and> assignedBudget r \<le> 4"
    using assignedBudget_range [of r] by blast
  have e: "assignedBudget r = 0 \<longrightarrow>
      createPOIMarker lat lon category r s = (Throws ''TypeError'', s)"
    using createPOIMarker_throws [of r lat lon category s] by blast
  have f: "category \<in> set POI_TYPES \<and> 1 \<le> assignedBudget r \<and> assignedBudget r \<le> 4 \<longrightarrow>
      createPOIMarker lat lon category r s =
        (ReturnsUndefined,
         s\<lparr>markers_pois := markers_pois s @
             [\<lparr>poi_latlng = (lat, lon), poi_budget = Some (assignedBudget r),
               poi_category = category, poi_opacity = 1\<rparr>]\<rparr>)"
    using createPOIMarker_stores [of category r lat lon s] by blast
  show ?thesis
    using a b0 c d e f by blast
qed

theorem absent_or_zero_budget_counts_as_two_witness:
  "poi_budget (markers_pois without_levels ! 0) = None \<and>
   poi_budget (markers_pois without_levels ! 1) = Some 0 \<and>
   \<not> shown (markers_pois (handleBudgetChange 1 without_levels) ! 0) \<and>
   shown (markers_pois (handleBudgetChange 2 without_levels) ! 0) \<and>
   \<not> shown (markers_pois (handleBudgetChange 1 without_levels) ! 1) \<and>
   shown (markers_pois (handleBudgetChange 2 without_levels) ! 1) \<and>
   assignedBudget 0 = 0 \<and>
   createPOIMarker 1 2 ''food'' 0 initial_state = (Throws ''TypeError'', initial_state) \<and>
   assignedBudget (1 / 2) = 2 \<and>
   markers_pois (snd (createPOIMarker 1 2 ''food'' (1 / 2) initial_state)) =
     [\<lparr>poi_latlng = (1, 2), poi_budget = Some 2, poi_category = ''food'', poi_opacity = 1\<rparr>]"
proof -
  have n: "poi_budget (markers_pois without_levels ! 0) = None"
    and z: "poi_budget (markers_pois without_levels ! 1) = Some 0"
    and l: "length (markers_pois without_levels) = 2"
    by (simp_all add: without_levels_def)
  have half: "assignedBudget (1 / 2) = 2"
    by (simp add: assignedBudget_def)
  have food: "''food'' \<in> set POI_TYPES"
    by (simp add: POI_TYPES_def)
  note t = absent_or_zero_budget_counts_as_two
  have a1: "\<not> shown (markers_pois (handleBudgetChange 1 without_levels) ! 0)"
    using t [where i = 0 and s = without_levels and maxLevel = 1] n l by simp
  have a2: "shown (markers_pois (handleBudgetChange 2 without_levels) ! 0)"
    using t [where i = 0 and s = without_levels and maxLevel = 2] n l by simp
  have a3: "\<not> shown (markers_pois (handleBudgetChange 1 without_levels) ! 1)"
    using t [where i = 1 and s = without_levels and maxLevel = 1] z l by simp
  have a4: "shown (markers_pois (handleBudgetChange 2 without_levels) ! 1)"
    using t [where i = 1 and s = without_levels and maxLevel = 2] z l by simp
  have b0: "assignedBudget 0 = 0"
    using t by blast
  have thr: "createPOIMarker 1 2 ''food'' 0 initial_state = (Throws ''TypeError'', initial_state)"
    using t [where r = 0 and lat = 1 and lon = 2 and category = "''food''" and s = initial_state]
    by simp
  have sto: "markers_pois (snd (createPOIMarker 1 2 ''food'' (1 / 2) initial_state)) =
     [\<lparr>poi_latlng = (1, 2), poi_budget = Some 2, poi_category = ''food'', poi_opacity = 1\<rparr>]"
    using t [where r = "1 / 2" and lat = 1 and lon = 2 and category = "''food''"
        and s = initial_state] half food
    by (simp add: initial_state_def)
  show ?thesis
    using n z a1 a2 a3 a4 b0 thr half sto by simp
qed

section \<open>Properties of the search points\<close>

lemma length_getIntermediatePoints [simp]: "length (getIntermediatePoints a b k) = k"
  by (simp add: getIntermediatePoints_def)

lemma nth_getIntermediatePoints:
  "j < k \<Longrightarrow> sp_coord (getIntermediatePoints a b k ! j) =
     interpolate (sp_coord a) (sp_coord b) (real (Suc j) / (real k + 1))"
  by (simp add: getIntermediatePoints_def sp_coord_def interpolate_def Let_def del: upt_Suc)

lemma length_concat_uniform:
  "\<forall>xs \<in> set xss. length xs = k \<Longrightarrow> length (concat xss) = length xss * k"
  by (induction xss) simp_all

lemma nth_concat_uniform:
  "\<forall>xs \<in> set xss. length xs = k \<Longrightarrow> i < length xss \<Longrightarrow> j < k \<Longrightarrow>
   concat xss ! (i * k + j) = xss ! i ! j"
proof (induction xss arbitrary: i)
  case Nil
  then show ?case by simp
next
  case (Cons xs xss)
  show ?case
  proof (cases i)
    case 0
    with Cons.prems show ?thesis by (simp add: nth_append)
  next
    case (Suc i')
    have len: "length xs = k" using Cons.prems(1) by simp
    have "concat (xs # xss) ! (i * k + j) = concat xss ! (i' * k + j)"
      using Suc len by (simp add: nth_append)
    also have "\<dots> = xss ! i' ! j"
      using Cons.IH [of i'] Cons.prems Suc by simp
    finally show ?thesis using Suc by simp
  qed
qed

lemma sp_coord_stop_point [simp]: "sp_coord (stop_point st) = stop_coord st"
  by (simp add: sp_coord_def stop_point_def stop_coord_def)

lemma searchPointsWith_segments:
  "0 < length (route_stops s) \<Longrightarrow>
   searchPointsWith k s = map stop_point (route_stops s) @ concat (segments k s)"
  by (simp add: searchPointsWith_def segments_def)

lemma segments_uniform: "\<forall>xs \<in> set (segments k s). length xs = k"
  by (auto simp add: segments_def)

lemma length_segments [simp]: "length (segments k s) = length (route_stops s) - 1"
  by (simp add: segments_def)

lemma nth_segments:
  "i < length (route_stops s) - 1 \<Longrightarrow>
   segments k s ! i = getIntermediatePoints (stop_point (route_stops s ! i))
                 (stop_point (route_stops s ! (i + 1))) k"
  by (simp add: segments_def)

lemma two_stops_route:
  "map stop_coord (route_stops two_stops) = [(1, 2), (3, 4)]"
  by (simp add: two_stops_def initial_state_def addStop_def Let_def stop_coord_def)

text \<open>
  Claim C5.  For a route of \<open>N \<ge> 2\<close> stops and \<open>k\<close> points per pair, the search points
  are \<open>N + k * (N - 1)\<close> in number: first the \<open>N\<close> stops in order, then for the \<open>i\<close>-th
  consecutive pair the \<open>k\<close> points at the fractions \<open>j / (k + 1)\<close>, \<open>j = 1 .. k\<close>, of the
  straight line from the first stop of the pair to the second.  (\<open>explorePlaces\<close> always
  passes \<open>k = 3\<close>.)
\<close>

theorem searchPoints_count_and_fractions:
  assumes "2 \<le> length (route_stops s)"
  shows "length (searchPointsWith k s) =
           length (route_stops s) + k * (length (route_stops s) - 1) \<and>
         map sp_coord (take (length (route_stops s)) (searchPointsWith k s)) =
           map stop_coord (route_stops s) \<and>
         (\<forall>i j. i < length (route_stops s) - 1 \<longrightarrow> 1 \<le> j \<longrightarrow> j \<le> k \<longrightarrow>
            sp_coord (searchPointsWith k s ! (length (route_stops s) + i * k + (j - 1))) =
              interpolate (stop_coord (route_stops s ! i)) (stop_coord (route_stops s ! (i + 1)))
                (real j / (real k + 1)))"
proof -
  let ?N = "length (route_stops s)"
  have pos: "0 < ?N" using assms by (cases "route_stops s") simp_all
  have eq: "searchPointsWith k s = map stop_point (route_stops s) @ concat (segments k s)"
    using pos by (rule searchPointsWith_segments)
  have count: "length (searchPointsWith k s) = ?N + k * (?N - 1)"
    by (simp add: eq length_concat_uniform [OF segments_uniform])
  have stops: "map sp_coord (take ?N (searchPointsWith k s)) = map stop_coord (route_stops s)"
    by (simp add: eq)
  have inter: "sp_coord (searchPointsWith k s ! (?N + i * k + (j - 1))) =
      interpolate (stop_coord (route_stops s ! i)) (stop_coord (route_stops s ! (i + 1)))
        (real j / (real k + 1))"
    if i: "i < ?N - 1" and j1: "1 \<le> j" and jk: "j \<le> k" for i j
  proof -
    have jlt: "j - 1 < k" using j1 jk by simp
    have "searchPointsWith k s ! (?N + i * k + (j - 1)) = concat (segments k s) ! (i * k + (j - 1))"
      by (simp add: eq nth_append add.assoc)
    also have "\<dots> = segments k s ! i ! (j - 1)"
      using i jlt by (simp add: nth_concat_uniform [OF segments_uniform])
    finally have "sp_coord (searchPointsWith k s ! (?N + i * k + (j - 1))) =
        sp_coord (getIntermediatePoints (stop_point (route_stops s ! i))
          (stop_point (route_stops s ! (i + 1))) k ! (j - 1))"
      using i by (simp add: nth_segments)
    also have "\<dots> = interpolate (stop_coord (route_stops s ! i))
        (stop_coord (route_stops s ! (i + 1))) (real (Suc (j - 1)) / (real k + 1))"
      using jlt by (simp only: nth_getIntermediatePoints sp_coord_stop_point)
    finally show ?thesis using j1 by simp
  qed
  show ?thesis using count stops inter by blast
qed

theorem searchPoints_count_and_fractions_witness:
  "2 \<le> length (route_stops two_stops) \<and>
   length (searchPoints two_stops) = 5 \<and>
   map sp_coord (take 2 (searchPoints two_stops)) = [(1, 2), (3, 4)] \<and>
   sp_coord (searchPoints two_stops ! 2) = interpolate (1, 2) (3, 4) (1 / 4) \<and>
   sp_coord (searchPoints two_stops ! 3) = interpolate (1, 2) (3, 4) (1 / 2) \<and>
   sp_coord (searchPoints two_stops ! 4) = interpolate (1, 2) (3, 4) (3 / 4)"
proof -
  have len: "length (route_stops two_stops) = 2"
    using arg_cong [OF two_stops_route, of length] by simp
  have c0: "stop_coord (route_stops two_stops ! 0) = (1, 2)"
    using arg_cong [OF two_stops_route, of "\<lambda>xs. xs ! 0"] len by simp
  have c1: "stop_coord (route_stops two_stops ! 1) = (3, 4)"
    using arg_cong [OF two_stops_route, of "\<lambda>xs. xs ! 1"] len by simp
  have h: "2 \<le> length (route_stops two_stops)" using len by simp
  note t = searchPoints_count_and_fractions [OF h, of 3]
  have a: "length (searchPoints two_stops) = 5"
    using t len by (simp add: searchPoints_def)
  have b: "map sp_coord (take 2 (searchPoints two_stops)) = [(1, 2), (3, 4)]"
    using t len two_stops_route by (simp add: searchPoints_def)
  have p: "sp_coord (searchPoints two_stops ! (2 + 0 * 3 + (j - 1))) =
      interpolate (1, 2) (3, 4) (real j / (real 3 + 1))" if "1 \<le> j" "j \<le> 3" for j
    using t len c0 c1 that by (simp add: searchPoints_def)
  show ?thesis
    using h a b p [of 1] p [of 2] p [of 3] by simp
qed

section \<open>Properties of the itinerary\<close>

lemma entry_pois_append: "entry_pois (xs @ ys) = entry_pois xs @ entry_pois ys"
  by (induction xs rule: entry_pois.induct) simp_all

lemma entry_pois_places [simp]:
  "entry_pois (map (\<lambda>(category, latlng). Place category latlng) ps) = ps"
  by (induction ps) auto

lemma day_blocks_append: "day_blocks (xs @ ys) = day_blocks xs @ day_blocks ys"
  by (induction xs rule: day_blocks.induct) simp_all

lemma day_blocks_itinerary_day:
  "map (\<lambda>(day, entries). (day, entry_pois entries)) (day_blocks (itinerary_day s day)) =
     day_pairs (poisPerDay s) (itinerary_pois s) 0 day"
  by (simp add: itinerary_day_def day_slice_def day_pairs_def Let_def entry_pois_append)

lemma day_blocks_concat:
  "map (\<lambda>(day, entries). (day, entry_pois entries))
       (day_blocks (concat (map (itinerary_day s) days))) =
   concat (map (day_pairs (poisPerDay s) (itinerary_pois s) 0) days)"
  by (induction days) (simp_all add: day_blocks_append day_blocks_itinerary_day)

lemma day_slice_Suc: "day_slice k xs (Suc (Suc j)) = day_slice k (drop k xs) (Suc j)"
  by (simp add: day_slice_def add.commute)

lemma day_pairs_shift:
  assumes "Suc (Suc off) \<le> day"
  shows "day_pairs k xs off day = day_pairs k (drop k xs) (Suc off) day"
proof -
  have "day - off = Suc (Suc (day - Suc (Suc off)))" using assms by arith
  moreover have "day - Suc off = Suc (day - Suc (Suc off))" using assms by arith
  ultimately show ?thesis by (simp only: day_pairs_def day_slice_Suc)
qed

lemma day_pairs_first:
  "0 < k \<Longrightarrow> day_pairs k xs off (Suc off) = (if xs = [] then [] else [(Suc off, take k xs)])"
  by (simp add: day_pairs_def day_slice_def)

lemma chunks_Nil: "spec_chunks k [] = []"
  by (simp add: spec_chunks.simps)

lemma chunks_Cons: "0 < k \<Longrightarrow> xs \<noteq> [] \<Longrightarrow> spec_chunks k xs = take k xs # spec_chunks k (drop k xs)"
  by (subst spec_chunks.simps) simp

lemma slices_are_chunks:
  "0 < k \<Longrightarrow> length xs \<le> d * k \<Longrightarrow>
   concat (map (day_pairs k xs off) [Suc off..<Suc off + d]) =
   zip [Suc off..<Suc off + length (spec_chunks k xs)] (spec_chunks k xs)"
proof (induction d arbitrary: xs off)
  case 0
  then show ?case by (simp add: chunks_Nil)
next
  case (Suc d)
  have range: "[Suc off..<Suc off + Suc d] = Suc off # [Suc (Suc off)..<Suc (Suc off) + d]"
    by (simp add: upt_conv_Cons)
  have len: "length (drop k xs) \<le> d * k"
    using Suc.prems by simp
  have same: "map (day_pairs k xs off) [Suc (Suc off)..<Suc (Suc off) + d] =
      map (day_pairs k (drop k xs) (Suc off)) [Suc (Suc off)..<Suc (Suc off) + d]"
  proof (rule map_cong [OF refl])
    fix day assume "day \<in> set [Suc (Suc off)..<Suc (Suc off) + d]"
    then have "Suc (Suc off) \<le> day" by (simp only: set_upt atLeastLessThan_iff)
    then show "day_pairs k xs off day = day_pairs k (drop k xs) (Suc off) day"
      by (rule day_pairs_shift)
  qed
  have ih: "concat (map (day_pairs k (drop k xs) (Suc off)) [Suc (Suc off)..<Suc (Suc off) + d]) =
      zip [Suc (Suc off)..<Suc (Suc off) + length (spec_chunks k (drop k xs))] (spec_chunks k (drop k xs))"
    using Suc.prems(1) len by (rule Suc.IH)
  have step: "concat (map (day_pairs k xs off) [Suc off..<Suc off + Suc d]) =
      day_pairs k xs off (Suc off) @
      zip [Suc (Suc off)..<Suc (Suc off) + length (spec_chunks k (drop k xs))] (spec_chunks k (drop k xs))"
    by (simp only: range list.map concat.simps same ih)
  show ?case
  proof (cases "xs = []")
    case True
    have e1: "day_pairs k xs off (Suc off) = []"
      using True by (simp add: day_pairs_first [OF Suc.prems(1)])
    have e2: "spec_chunks k (drop k xs) = []"
      using True by (simp add: chunks_Nil)
    have e3: "spec_chunks k xs = []"
      using True by (simp add: chunks_Nil)
    show ?thesis
      by (simp only: step e1 e2 e3 zip.simps append_Nil)
  next
    case False
    have ch: "spec_chunks k xs = take k xs # spec_chunks k (drop k xs)"
      using Suc.prems(1) False by (rule chunks_Cons)
    have "[Suc off..<Suc off + length (spec_chunks k xs)] =
        Suc off # [Suc (Suc off)..<Suc (Suc off) + length (spec_chunks k (drop k xs))]"
      by (simp add: ch upt_conv_Cons del: upt_Suc)
    then have "zip [Suc off..<Suc off + length (spec_chunks k xs)] (spec_chunks k xs) =
        (Suc off, take k xs) #
        zip [Suc (Suc off)..<Suc (Suc off) + length (spec_chunks k (drop k xs))] (spec_chunks k (drop k xs))"
      by (simp add: ch)
    moreover have "day_pairs k xs off (Suc off) = [(Suc off, take k xs)]"
      using False by (simp add: day_pairs_first [OF Suc.prems(1)])
    ultimately show ?thesis
      by (simp only: step append.simps)
  qed
qed

lemma poisPerDay_covers:
  assumes "1 \<le> trip_days s"
  shows "length (itinerary_pois s) \<le> trip_days s * poisPerDay s"
proof -
  let ?n = "length (itinerary_pois s)"
  let ?d = "trip_days s"
  have d: "0 < real ?d" using assms by simp
  have "real ?n / real ?d \<le> of_int \<lceil>real ?n / real ?d\<rceil>"
    by (rule le_of_int_ceiling)
  also have "\<dots> = real (poisPerDay s)"
    by (simp add: poisPerDay_def)
  finally have "real ?n \<le> real (poisPerDay s) * real ?d"
    using d by (simp add: pos_divide_le_eq)
  then have "real ?n \<le> real (?d * poisPerDay s)"
    by (simp add: mult.commute)
  then show ?thesis
    by (simp only: of_nat_le_iff)
qed

lemma poisPerDay_positive:
  assumes "1 \<le> trip_days s" and "itinerary_pois s \<noteq> []"
  shows "0 < poisPerDay s"
proof -
  have "0 < real (length (itinerary_pois s)) / real (trip_days s)"
    using assms by simp
  then have "0 < \<lceil>real (length (itinerary_pois s)) / real (trip_days s)\<rceil>"
    by (simp only: zero_less_ceiling)
  then show ?thesis
    by (simp add: poisPerDay_def)
qed

lemma poisPerDay_div:
  assumes "1 \<le> trip_days s"
  shows "poisPerDay s = (length (itinerary_pois s) + trip_days s - 1) div trip_days s"
proof -
  let ?n = "length (itinerary_pois s)"
  let ?d = "trip_days s"
  let ?z = "(?n + ?d - 1) div ?d"
  have d: "0 < ?d" using assms by simp
  have up: "?n \<le> ?z * ?d"
  proof -
    have m: "(?n + ?d - 1) mod ?d < ?d" using d by simp
    have "?n + ?d - 1 = ?z * ?d + (?n + ?d - 1) mod ?d" by simp
    then show ?thesis using m by arith
  qed
  have low: "?z * ?d < ?n + ?d"
  proof -
    have "?z * ?d \<le> ?n + ?d - 1" by (rule div_times_less_eq_dividend)
    then show ?thesis using d by arith
  qed
  have "\<lceil>real ?n / real ?d\<rceil> = int ?z"
  proof (rule ceiling_unique)
    have "real (?z * ?d) < real (?n + ?d)" using low by (simp only: of_nat_less_iff)
    then have "real ?z * real ?d - real ?d < real ?n" by simp
    then have "(real ?z - 1) * real ?d < real ?n" by (simp add: algebra_simps)
    then show "of_int (int ?z) - 1 < real ?n / real ?d"
      using d by (simp add: pos_less_divide_eq)
    have "real ?n \<le> real (?z * ?d)" using up by (simp only: of_nat_le_iff)
    then show "real ?n / real ?d \<le> of_int (int ?z)"
      using d by (simp add: pos_divide_le_eq)
  qed
  then show ?thesis
    by (simp add: poisPerDay_def)
qed

lemma concat_chunks: "0 < k \<Longrightarrow> concat (spec_chunks k xs) = xs"
proof (induction k xs rule: spec_chunks.induct)
  case (1 k xs)
  show ?case
  proof (cases "xs = []")
    case True
    then show ?thesis by (simp add: chunks_Nil)
  next
    case False
    then have "concat (spec_chunks k xs) = take k xs @ concat (spec_chunks k (drop k xs))"
      using "1.prems" by (simp add: chunks_Cons)
    also have "\<dots> = take k xs @ drop k xs"
      using "1.IH" False "1.prems" by simp
    finally show ?thesis by simp
  qed
qed

lemma trip_days_addStop [simp]: "trip_days (addStop lat lon name type s) = trip_days s"
  by (simp add: addStop_def updateRoute_def updateStopsList_def Let_def split: option.splits)

lemma markers_pois_addStop [simp]: "markers_pois (addStop lat lon name type s) = markers_pois s"
  by (simp add: addStop_def updateRoute_def updateStopsList_def Let_def split: option.splits)

lemma two_stops_days: "trip_days two_stops = 3"
  by (simp add: two_stops_def) (simp add: initial_state_def)

lemma two_stops_names: "map stop_name (route_stops two_stops) = [''Delhi'', ''Agra'']"
  by (simp add: two_stops_def initial_state_def addStop_def Let_def)

lemma seven_places_pois:
  "itinerary_pois seven_places =
     map (\<lambda>x. (''food'', (x, x))) [0, 1, 2, 3, 4, 5, 6]"
  by (simp add: itinerary_pois_def seven_places_def)

lemma itinerary_day_is_day: "list_all is_day (itinerary_day s day)"
  by (simp add: itinerary_day_def Let_def)

lemma concat_days_are_days: "list_all is_day (concat (map (itinerary_day s) days))"
  by (induction days) (simp_all add: itinerary_day_is_day)

lemma no_places_markers: "markers_pois no_places = []"
  by (simp add: no_places_def two_stops_def) (simp add: initial_state_def)

lemma four_places_pois:
  "itinerary_pois four_places =
     [(''food'', (1, 1)), (''cafe'', (2, 2)), (''shop'', (3, 3)), (''hotel'', (4, 4))]"
  by (simp add: itinerary_pois_def four_places_def four_levels_def)

lemma four_places_days: "trip_days four_places = 3"
  by (simp add: four_places_def two_stops_days)

lemma four_places_stops: "map stop_name (route_stops four_places) = [''Delhi'', ''Agra'']"
  by (simp add: four_places_def two_stops_names)

lemma four_places_poisPerDay: "poisPerDay four_places = 2"
  by (simp add: poisPerDay_div four_places_days four_places_pois)

text \<open>
  Claim C4.  With at least one trip day, the places of the day blocks of the itinerary
  are the contiguous chunks of \<open>poisPerDay\<close> places (\<open>spec_chunks\<close>), in the order of
  the catalog; the days are numbered from 1 without a gap, so the days left out are
  trailing ones; the chunks together are the whole catalog; and \<open>poisPerDay\<close> is
  \<open>n / tripDays\<close> rounded up.  (The bound \<open>tripDays \<le> 30\<close> is not needed.)
\<close>

theorem plan_partitions_catalog_by_day:
  assumes "1 \<le> trip_days s"
  shows "map (\<lambda>(day, entries). entry_pois entries) (day_blocks (itinerary_body s)) =
           spec_chunks (poisPerDay s) (itinerary_pois s) \<and>
         map fst (day_blocks (itinerary_body s)) =
           [1..<Suc (length (spec_chunks (poisPerDay s) (itinerary_pois s)))] \<and>
         concat (spec_chunks (poisPerDay s) (itinerary_pois s)) = itinerary_pois s \<and>
         poisPerDay s = (length (itinerary_pois s) + trip_days s - 1) div trip_days s"
proof (cases "itinerary_pois s = []")
  case True
  then show ?thesis
    using assms by (simp add: itinerary_body_def poisPerDay_div chunks_Nil)
next
  case False
  let ?k = "poisPerDay s"
  let ?xs = "itinerary_pois s"
  have k: "0 < ?k" using assms False by (rule poisPerDay_positive)
  have cover: "length ?xs \<le> trip_days s * ?k" using assms by (rule poisPerDay_covers)
  have body: "itinerary_body s = concat (map (itinerary_day s) [Suc 0..<Suc 0 + trip_days s])"
    using False by (simp add: itinerary_body_def)
  have "map (\<lambda>(day, entries). (day, entry_pois entries)) (day_blocks (itinerary_body s)) =
      concat (map (day_pairs ?k ?xs 0) [Suc 0..<Suc 0 + trip_days s])"
    by (simp only: body day_blocks_concat)
  also have "\<dots> = zip [Suc 0..<Suc 0 + length (spec_chunks ?k ?xs)] (spec_chunks ?k ?xs)"
    using k cover by (rule slices_are_chunks)
  finally have pairs:
    "map (\<lambda>(day, entries). (day, entry_pois entries)) (day_blocks (itinerary_body s)) =
      zip [Suc 0..<Suc 0 + length (spec_chunks ?k ?xs)] (spec_chunks ?k ?xs)" .
  have zs: "map snd (zip [Suc 0..<Suc 0 + length (spec_chunks ?k ?xs)] (spec_chunks ?k ?xs)) =
      spec_chunks ?k ?xs"
    by (rule map_snd_zip) (simp del: upt_Suc)
  have zf: "map fst (zip [Suc 0..<Suc 0 + length (spec_chunks ?k ?xs)] (spec_chunks ?k ?xs)) =
      [Suc 0..<Suc 0 + length (spec_chunks ?k ?xs)]"
    by (rule map_fst_zip) (simp del: upt_Suc)
  have "map (\<lambda>(day, entries). entry_pois entries) (day_blocks (itinerary_body s)) =
      map snd (map (\<lambda>(day, entries). (day, entry_pois entries)) (day_blocks (itinerary_body s)))"
    by (simp add: split_def o_def)
  also have "\<dots> = spec_chunks ?k ?xs"
    by (simp only: pairs zs)
  finally have a: "map (\<lambda>(day, entries). entry_pois entries) (day_blocks (itinerary_body s)) =
      spec_chunks ?k ?xs" .
  have "map fst (day_blocks (itinerary_body s)) =
      map fst (map (\<lambda>(day, entries). (day, entry_pois entries)) (day_blocks (itinerary_body s)))"
    by (simp add: split_def o_def)
  also have "\<dots> = [Suc 0..<Suc 0 + length (spec_chunks ?k ?xs)]"
    by (simp only: pairs zf)
  finally have b: "map fst (day_blocks (itinerary_body s)) = [1..<Suc (length (spec_chunks ?k ?xs))]"
    by (simp del: upt_Suc)
  show ?thesis
    using a b concat_chunks [OF k] poisPerDay_div [OF assms] by simp
qed

theorem plan_partitions_catalog_by_day_witness:
  "1 \<le> trip_days seven_places \<and> length (itinerary_pois seven_places) = 7 \<and>
   poisPerDay seven_places = 3 \<and>
   map (\<lambda>(day, entries). length (entry_pois entries)) (day_blocks (itinerary_body seven_places)) =
     [3, 3, 1] \<and>
   map fst (day_blocks (itinerary_body seven_places)) = [1, 2, 3]"
proof -
  have d: "trip_days seven_places = 3"
    by (simp add: seven_places_def two_stops_days)
  have h: "1 \<le> trip_days seven_places" using d by simp
  note t = plan_partitions_catalog_by_day [OF h]
  have k: "poisPerDay seven_places = 3"
    using t d by (simp add: seven_places_pois)
  have c: "spec_chunks 3 (itinerary_pois seven_places) =
      [[(''food'', (0, 0)), (''food'', (1, 1)), (''food'', (2, 2))],
       [(''food'', (3, 3)), (''food'', (4, 4)), (''food'', (5, 5))],
       [(''food'', (6, 6))]]"
    by (simp add: seven_places_pois spec_chunks.simps)
  have "map (\<lambda>(day, entries). length (entry_pois entries)) (day_blocks (itinerary_body seven_places))
      = map length (map (\<lambda>(day, entries). entry_pois entries)
          (day_blocks (itinerary_body seven_places)))"
    by (simp add: split_def o_def)
  also have "\<dots> = [3, 3, 1]"
    using t by (simp add: k c)
  finally have sizes: "map (\<lambda>(day, entries). length (entry_pois entries))
      (day_blocks (itinerary_body seven_places)) = [3, 3, 1]" .
  have days: "map fst (day_blocks (itinerary_body seven_places)) = [1, 2, 3]"
    using t by (simp add: k c upt_rec)
  show ?thesis
    using h k sizes days by (simp add: seven_places_pois)
qed

text \<open>
  Claim C7.  With an empty catalog the itinerary is the route header followed by the
  "no places" notice, whatever the stops, the number of days and the distance shown in
  the header: it is not empty and it is not a list of day blocks.  With a non-empty catalog every block after the header is
  a day block, so the two results cannot be confused.
\<close>

theorem empty_catalog_shows_notice:
  "(markers_pois s = [] \<longrightarrow>
      itinerary_body s = [ItineraryEmpty] \<and>
      itinerary_content (generateItinerary roundedTotal s) =
        [RouteInfo (length (route_stops s)) (calculateRouteDistance roundedTotal s)
           (trip_days s),
         ItineraryEmpty] \<and>
      itinerary_body s \<noteq> [] \<and> \<not> list_all is_day (itinerary_body s)) \<and>
   (markers_pois s \<noteq> [] \<longrightarrow> list_all is_day (itinerary_body s))"
proof -
  have a: "itinerary_body s = [ItineraryEmpty]" if "markers_pois s = []"
    using that by (simp add: itinerary_body_def itinerary_pois_def)
  have b: "list_all is_day (itinerary_body s)" if "markers_pois s \<noteq> []"
    using that by (simp add: itinerary_body_def itinerary_pois_def concat_days_are_days)
  have c: "itinerary_content (generateItinerary roundedTotal s) =
      RouteInfo (length (route_stops s)) (calculateRouteDistance roundedTotal s) (trip_days s)
        # itinerary_body s"
    by (simp add: generateItinerary_def)
  show ?thesis
    using a b c by simp
qed

theorem empty_catalog_shows_notice_witness:
  "markers_pois no_places = [] \<and> trip_days no_places = 1 \<and>
   itinerary_body no_places = [ItineraryEmpty] \<and>
   itinerary_body no_places \<noteq> [] \<and> \<not> list_all is_day (itinerary_body no_places) \<and>
   markers_pois four_places \<noteq> [] \<and> list_all is_day (itinerary_body four_places)"
proof -
  have m: "markers_pois four_places \<noteq> []"
    by (simp add: four_places_def four_levels_def)
  show ?thesis
    using empty_catalog_shows_notice [of no_places] empty_catalog_shows_notice [of four_places]
      no_places_markers m
    by (simp add: no_places_def)
qed

text \<open>
  Day 1 is always rendered when there are places and at least one day, and it starts
  with the first stop when the route has one.
\<close>

lemma first_day_starts_at_start:
  assumes "markers_pois s \<noteq> []" and "1 \<le> trip_days s" and "route_stops s \<noteq> []"
  shows "\<exists>entries rest. itinerary_body s =
           ItineraryDay 1 (StartingPoint (name_or (stop_name (route_stops s ! 0)) ''Start'')
             # entries) # rest"
proof -
  have ne: "itinerary_pois s \<noteq> []"
    using assms(1) by (simp add: itinerary_pois_def)
  have k: "0 < poisPerDay s"
    using assms(2) ne by (rule poisPerDay_positive)
  have range: "[Suc 0..<Suc (trip_days s)] = Suc 0 # [Suc (Suc 0)..<Suc (trip_days s)]"
    using assms(2) by (simp add: upt_conv_Cons del: upt_Suc)
  have body: "itinerary_body s =
      itinerary_day s (Suc 0) @ concat (map (itinerary_day s) [Suc (Suc 0)..<Suc (trip_days s)])"
    using ne by (simp add: itinerary_body_def range del: upt_Suc)
  have slice: "take (poisPerDay s) (itinerary_pois s) \<noteq> []"
    using k ne by simp
  have "\<exists>entries. itinerary_day s (Suc 0) =
      [ItineraryDay 1 (StartingPoint (name_or (stop_name (route_stops s ! 0)) ''Start'')
         # entries)]"
    using slice assms(3) by (simp add: itinerary_day_def Let_def)
  then show ?thesis
    using body by auto
qed

text \<open>
  Claim C2, at an input where the code departs from it.  With two stops, four places and
  three days, \<open>poisPerDay\<close> is 2, days 1 and 2 take all the places, and day 3 is skipped
  before the destination is added: day 1 starts with the starting point, but the last
  day of the output, day 2, does not end with the destination.
\<close>

theorem last_day_without_places_drops_destination:
  "length (route_stops four_places) = 2 \<and> trip_days four_places = 3 \<and>
   length (markers_pois four_places) = 4 \<and>
   itinerary_body four_places =
     [ItineraryDay 1 [StartingPoint ''Delhi'', Place ''food'' (1, 1), Place ''cafe'' (2, 2)],
      ItineraryDay 2 [Place ''shop'' (3, 3), Place ''hotel'' (4, 4)]]"
proof -
  have len: "length (route_stops four_places) = 2"
    using arg_cong [OF four_places_stops, of length] by simp
  have n0: "stop_name (route_stops four_places ! 0) = ''Delhi''"
    using arg_cong [OF four_places_stops, of "\<lambda>xs. xs ! 0"] len by simp
  have m: "length (markers_pois four_places) = 4"
    by (simp add: four_places_def four_levels_def)
  have d1: "itinerary_day four_places 1 =
      [ItineraryDay 1 [StartingPoint ''Delhi'', Place ''food'' (1, 1), Place ''cafe'' (2, 2)]]"
    by (simp add: itinerary_day_def four_places_poisPerDay four_places_pois four_places_days
        len n0 name_or_def)
  have d2: "itinerary_day four_places 2 =
      [ItineraryDay 2 [Place ''shop'' (3, 3), Place ''hotel'' (4, 4)]]"
    by (simp add: itinerary_day_def four_places_poisPerDay four_places_pois four_places_days len)
  have d3: "itinerary_day four_places 3 = []"
    by (simp add: itinerary_day_def four_places_poisPerDay four_places_pois four_places_days len)
  have days: "[1..<Suc (trip_days four_places)] = [1, 2, 3]"
    by (simp add: four_places_days upt_rec)
  have body: "itinerary_body four_places =
      concat (map (itinerary_day four_places) [1..<Suc (trip_days four_places)])"
    by (simp add: itinerary_body_def four_places_pois del: upt_Suc)
  have "itinerary_body four_places = concat (map (itinerary_day four_places) [1, 2, 3])"
    by (simp only: body days)
  also have "\<dots> =
     [ItineraryDay 1 [StartingPoint ''Delhi'', Place ''food'' (1, 1), Place ''cafe'' (2, 2)],
      ItineraryDay 2 [Place ''shop'' (3, 3), Place ''hotel'' (4, 4)]]"
    by (simp only: list.map concat.simps d1 d2 d3 append.simps append_Nil2)
  finally show ?thesis
    using len m four_places_days by simp
qed

end
